theory Spec2Isabelle
  imports Complex_Main
begin

section \<open>Float32 tensor elements\<close>

text \<open>
  The functions of \<^verbatim>\<open>sleap/nn/data.py\<close> compute on float32 tensors. A tensor element
  is a finite number, one of the two infinities, or NaN. Finite elements are read as real
  numbers: rounding, overflow to infinity, underflow and the sign of zero are not
  represented. The exceptional results of IEEE arithmetic are: \<open>0/0\<close>,
  \<open>inf - inf\<close>, \<open>0 * inf\<close>, \<open>inf / inf\<close> and the square root of a negative number
  are NaN, a nonzero finite number divided by zero is an infinity, NaN is absorbing, and
  every comparison with NaN is false.
\<close>

datatype fl = Fin real | PInf | NInf | NaN

fun is_finite :: "fl \<Rightarrow> bool" where
  "is_finite (Fin a) = True"
| "is_finite PInf = False"
| "is_finite NInf = False"
| "is_finite NaN = False"

fun is_nan :: "fl \<Rightarrow> bool" where
  "is_nan NaN = True"
| "is_nan (Fin a) = False"
| "is_nan PInf = False"
| "is_nan NInf = False"

fun fneg :: "fl \<Rightarrow> fl" where
  "fneg (Fin a) = Fin (- a)"
| "fneg PInf = NInf"
| "fneg NInf = PInf"
| "fneg NaN = NaN"

fun fadd :: "fl \<Rightarrow> fl \<Rightarrow> fl" where
  "fadd (Fin a) (Fin b) = Fin (a + b)"
| "fadd (Fin a) PInf = PInf"
| "fadd (Fin a) NInf = NInf"
| "fadd (Fin a) NaN = NaN"
| "fadd PInf (Fin b) = PInf"
| "fadd PInf PInf = PInf"
| "fadd PInf NInf = NaN"
| "fadd PInf NaN = NaN"
| "fadd NInf (Fin b) = NInf"
| "fadd NInf PInf = NaN"
| "fadd NInf NInf = NInf"
| "fadd NInf NaN = NaN"
| "fadd NaN b = NaN"

definition fsub :: "fl \<Rightarrow> fl \<Rightarrow> fl" where
  "fsub a b = fadd a (fneg b)"

fun fmul :: "fl \<Rightarrow> fl \<Rightarrow> fl" where
  "fmul (Fin a) (Fin b) = Fin (a * b)"
| "fmul (Fin a) PInf = (if a = 0 then NaN else if 0 < a then PInf else NInf)"
| "fmul (Fin a) NInf = (if a = 0 then NaN else if 0 < a then NInf else PInf)"
| "fmul (Fin a) NaN = NaN"
| "fmul PInf (Fin b) = (if b = 0 then NaN else if 0 < b then PInf else NInf)"
| "fmul PInf PInf = PInf"
| "fmul PInf NInf = NInf"
| "fmul PInf NaN = NaN"
| "fmul NInf (Fin b) = (if b = 0 then NaN else if 0 < b then NInf else PInf)"
| "fmul NInf PInf = NInf"
| "fmul NInf NInf = PInf"
| "fmul NInf NaN = NaN"
| "fmul NaN b = NaN"

fun fdiv :: "fl \<Rightarrow> fl \<Rightarrow> fl" where
  "fdiv (Fin a) (Fin b) =
     (if b = 0 then (if a = 0 then NaN else if 0 < a then PInf else NInf)
      else Fin (a / b))"
| "fdiv (Fin a) PInf = Fin 0"
| "fdiv (Fin a) NInf = Fin 0"
| "fdiv (Fin a) NaN = NaN"
| "fdiv PInf (Fin b) = (if 0 \<le> b then PInf else NInf)"
| "fdiv PInf PInf = NaN"
| "fdiv PInf NInf = NaN"
| "fdiv PInf NaN = NaN"
| "fdiv NInf (Fin b) = (if 0 \<le> b then NInf else PInf)"
| "fdiv NInf PInf = NaN"
| "fdiv NInf NInf = NaN"
| "fdiv NInf NaN = NaN"
| "fdiv NaN b = NaN"

fun fexp :: "fl \<Rightarrow> fl" where
  "fexp (Fin a) = Fin (exp a)"
| "fexp PInf = PInf"
| "fexp NInf = Fin 0"
| "fexp NaN = NaN"

fun fsqrt :: "fl \<Rightarrow> fl" where
  "fsqrt (Fin a) = (if a < 0 then NaN else Fin (sqrt a))"
| "fsqrt PInf = PInf"
| "fsqrt NInf = NaN"
| "fsqrt NaN = NaN"

fun fabs :: "fl \<Rightarrow> fl" where
  "fabs (Fin a) = Fin \<bar>a\<bar>"
| "fabs PInf = PInf"
| "fabs NInf = PInf"
| "fabs NaN = NaN"

fun fle :: "fl \<Rightarrow> fl \<Rightarrow> bool" where
  "fle (Fin a) (Fin b) = (a \<le> b)"
| "fle (Fin a) PInf = True"
| "fle (Fin a) NInf = False"
| "fle (Fin a) NaN = False"
| "fle PInf (Fin b) = False"
| "fle PInf PInf = True"
| "fle PInf NInf = False"
| "fle PInf NaN = False"
| "fle NInf (Fin b) = True"
| "fle NInf PInf = True"
| "fle NInf NInf = True"
| "fle NInf NaN = False"
| "fle NaN b = False"

definition fge :: "fl \<Rightarrow> fl \<Rightarrow> bool" where
  "fge a b = fle b a"

definition fmin :: "fl \<Rightarrow> fl \<Rightarrow> fl" where
  "fmin a b = (if fle b a then b else a)"

definition fmax :: "fl \<Rightarrow> fl \<Rightarrow> fl" where
  "fmax a b = (if fle a b then b else a)"

text \<open>\<^verbatim>\<open>tf.where(tf.math.is_nan(t), 0.0, t)\<close>, on one element.\<close>

definition nan_to_zero :: "fl \<Rightarrow> fl" where
  "nan_to_zero v = (if is_nan v then Fin 0 else v)"

text \<open>\<^verbatim>\<open>tf.cast(mask, tf.float32)\<close>, on one element.\<close>

definition cast_float :: "bool \<Rightarrow> fl" where
  "cast_float b = (if b then Fin 1 else Fin 0)"

section \<open>Errors\<close>

text \<open>
  The exceptions the modelled code can raise. \<open>InvalidArgumentError\<close> is TensorFlow's
  error for an index out of range, incompatible shapes, or a range whose step points
  away from its limit.
\<close>

datatype py_error =
    TypeError
  | UnboundLocalError
  | AttributeError
  | ValueError
  | IndexError
  | ZeroDivisionError
  | InvalidArgumentError

section \<open>Sampling grid\<close>

text \<open>
  \<^verbatim>\<open>tf.range(0, limit, delta, dtype=tf.float32)\<close>: the values \<open>0, delta, 2 delta, ...\<close>
  below \<open>limit\<close>; their number is \<open>ceil(limit / delta)\<close>. TensorFlow rejects a zero
  step, and a negative step when the limit is above the start.
\<close>

definition tf_range :: "nat \<Rightarrow> real \<Rightarrow> py_error + real list" where
  "tf_range limit delta =
     (if delta = 0 then Inl InvalidArgumentError
      else if 0 < delta then
        Inr (map (\<lambda>i. real i * delta) [0..<nat \<lceil>real limit / delta\<rceil>])
      else if limit = 0 then Inr []
      else Inl InvalidArgumentError)"

text \<open>
  Both rasterizers step the grid by the Python expression \<^verbatim>\<open>1.0 / output_scale\<close>,
  which raises \<open>ZeroDivisionError\<close> for a zero scale.
\<close>

definition grid_vector :: "nat \<Rightarrow> real \<Rightarrow> py_error + real list" where
  "grid_vector limit output_scale =
     (if output_scale = 0 then Inl ZeroDivisionError
      else tf_range limit (1 / output_scale))"

section \<open>Confidence maps\<close>

text \<open>
  A points tensor of shape \<open>(n_instances, n_nodes, 2)\<close> is a list of instances, each a
  list of \<open>(x, y)\<close> pairs.

  \<open>confmap_value\<close> is one element of the broadcast expression of \<^verbatim>\<open>make_confmaps\<close>,
  \<^verbatim>\<open>tf.exp(-((xv - x) ** 2 + (yv - y) ** 2) / (2 * sigma ** 2))\<close>.
\<close>

type_synonym points = "(fl \<times> fl) list list"

definition confmap_value :: "real \<Rightarrow> real \<Rightarrow> real \<Rightarrow> fl \<times> fl \<Rightarrow> fl" where
  "confmap_value sigma gx gy p =
     (let dx = fsub (Fin gx) (fst p);
          dy = fsub (Fin gy) (snd p)
      in fexp (fdiv (fneg (fadd (fmul dx dx) (fmul dy dy))) (Fin (2 * sigma ^ 2))))"

text \<open>
  \<^verbatim>\<open>make_confmaps(points, image_height, image_width, output_scale, sigma)\<close>. The result
  has shape \<open>(n_instances, out_height, out_width, n_nodes)\<close>: the grid's \<open>y\<close> vector runs
  along axis 1 and its \<open>x\<close> vector along axis 2.
\<close>

definition make_confmaps ::
  "points \<Rightarrow> nat \<Rightarrow> nat \<Rightarrow> real \<Rightarrow> real \<Rightarrow> py_error + fl list list list list" where
  "make_confmaps pts image_height image_width output_scale sigma =
     (case grid_vector image_height output_scale of
        Inl e \<Rightarrow> Inl e
      | Inr yv \<Rightarrow>
         (case grid_vector image_width output_scale of
            Inl e \<Rightarrow> Inl e
          | Inr xv \<Rightarrow>
              Inr (map (\<lambda>inst.
                     map (\<lambda>gy.
                       map (\<lambda>gx.
                         map (\<lambda>p. nan_to_zero (confmap_value sigma gx gy p)) inst)
                       xv)
                     yv)
                   pts)))"

section \<open>Part affinity fields\<close>

text \<open>
  An edge is a pair \<open>(src_node_ind, dst_node_ind)\<close> of integers indexing the landmark
  axis. \<^verbatim>\<open>tf.gather(points, edges, axis=1)\<close> raises for an index outside
  \<open>[0, n_nodes)\<close>.
\<close>

type_synonym edge = "int \<times> int"

definition valid_ind :: "nat \<Rightarrow> int \<Rightarrow> bool" where
  "valid_ind n i = (0 \<le> i \<and> i < int n)"

definition gather_ok :: "points \<Rightarrow> edge list \<Rightarrow> bool" where
  "gather_ok pts edges =
     list_all (\<lambda>inst.
       list_all (\<lambda>e. valid_ind (length inst) (fst e) \<and> valid_ind (length inst) (snd e)) edges)
     pts"

text \<open>
  The quantities of one instance and one edge, from its source and destination points:
  \<^verbatim>\<open>delta_points\<close>, \<^verbatim>\<open>edge_lengths\<close> (\<^verbatim>\<open>tf.linalg.norm\<close>), \<^verbatim>\<open>unit_vectors\<close> and
  \<^verbatim>\<open>perpendicular_unit_vectors\<close>.
\<close>

definition delta_points :: "fl \<times> fl \<Rightarrow> fl \<times> fl \<Rightarrow> fl \<times> fl" where
  "delta_points src dst = (fsub (fst dst) (fst src), fsub (snd dst) (snd src))"

definition edge_length :: "fl \<times> fl \<Rightarrow> fl" where
  "edge_length d = fsqrt (fadd (fmul (fst d) (fst d)) (fmul (snd d) (snd d)))"

definition unit_vector :: "fl \<times> fl \<Rightarrow> fl \<times> fl" where
  "unit_vector d = (fdiv (fst d) (edge_length d), fdiv (snd d) (edge_length d))"

definition perpendicular_unit_vector :: "fl \<times> fl \<Rightarrow> fl \<times> fl" where
  "perpendicular_unit_vector u = (fneg (snd u), fst u)"

text \<open>\<^verbatim>\<open>tf.reduce_sum(u * g, axis=-1)\<close> over the two components of the last axis.\<close>

definition dot2 :: "fl \<times> fl \<Rightarrow> fl \<times> fl \<Rightarrow> fl" where
  "dot2 u g = fadd (fmul (fst u) (fst g)) (fmul (snd u) (snd g))"

text \<open>
  \<^verbatim>\<open>paf_mask\<close> at the grid point \<open>(gx, gy)\<close>:
  \<^verbatim>\<open>after_edge_source & before_edge_dest & within_edge_width\<close>.
\<close>

definition paf_mask :: "real \<Rightarrow> fl \<times> fl \<Rightarrow> fl \<times> fl \<Rightarrow> real \<Rightarrow> real \<Rightarrow> bool" where
  "paf_mask distance_threshold src dst gx gy =
     (let d = delta_points src dst;
          u = unit_vector d;
          source_relative = (fsub (Fin gx) (fst src), fsub (Fin gy) (snd src));
          parallel_distance = dot2 u source_relative;
          perpendicular_distance = fabs (dot2 (perpendicular_unit_vector u) source_relative)
      in fge parallel_distance (Fin (- distance_threshold))
         \<and> fle parallel_distance (fadd (Fin distance_threshold) (edge_length d))
         \<and> fle perpendicular_distance (Fin distance_threshold))"

text \<open>
  The vector one instance contributes to one edge at one grid point: the mask cast to
  float times the unit vector, then \<^verbatim>\<open>tf.where(tf.math.is_nan(pafs), 0.0, pafs)\<close>.
\<close>

definition paf_value :: "real \<Rightarrow> fl \<times> fl \<Rightarrow> fl \<times> fl \<Rightarrow> real \<Rightarrow> real \<Rightarrow> fl \<times> fl" where
  "paf_value distance_threshold src dst gx gy =
     (let u = unit_vector (delta_points src dst);
          m = cast_float (paf_mask distance_threshold src dst gx gy)
      in (nan_to_zero (fmul m (fst u)), nan_to_zero (fmul m (snd u))))"

text \<open>\<^verbatim>\<open>tf.reduce_sum(pafs, axis=0)\<close>: the sum over the instances; zero for no instance.\<close>

definition reduce_sum :: "fl list \<Rightarrow> fl" where
  "reduce_sum vs = foldr fadd vs (Fin 0)"

text \<open>
  \<^verbatim>\<open>make_pafs(points, edges, image_height, image_width, output_scale,
  distance_threshold)\<close>. The source reshapes the range over \<^verbatim>\<open>image_width\<close> to
  \<open>[1, -1, 1, 1]\<close> and the range over \<^verbatim>\<open>image_height\<close> to \<open>[1, 1, -1, 1]\<close>, so after
  the reduction over instances the first axis of the result runs over the \<open>x\<close> samples
  and the second over the \<open>y\<close> samples. The last axis interleaves the two components of
  every edge.
\<close>

definition make_pafs ::
  "points \<Rightarrow> edge list \<Rightarrow> nat \<Rightarrow> nat \<Rightarrow> real \<Rightarrow> real \<Rightarrow> py_error + fl list list list" where
  "make_pafs pts edges image_height image_width output_scale distance_threshold =
     (if \<not> gather_ok pts edges then Inl InvalidArgumentError
      else
        (case grid_vector image_height output_scale of
           Inl e \<Rightarrow> Inl e
         | Inr yv \<Rightarrow>
            (case grid_vector image_width output_scale of
               Inl e \<Rightarrow> Inl e
             | Inr xv \<Rightarrow>
                 Inr (map (\<lambda>gx.
                        map (\<lambda>gy.
                          concat (map (\<lambda>e.
                            [reduce_sum (map (\<lambda>inst.
                               fst (paf_value distance_threshold
                                      (inst ! nat (fst e)) (inst ! nat (snd e)) gx gy)) pts),
                             reduce_sum (map (\<lambda>inst.
                               snd (paf_value distance_threshold
                                      (inst ! nat (fst e)) (inst ! nat (snd e)) gx gy)) pts)])
                          edges))
                        yv)
                      xv))))"

text \<open>Elementwise sum of two \<^verbatim>\<open>make_pafs\<close> results of the same shape.\<close>

definition tensor_add :: "fl list list list \<Rightarrow> fl list list list \<Rightarrow> fl list list list" where
  "tensor_add A B = map2 (map2 (map2 fadd)) A B"

section \<open>Geometry primitives\<close>

text \<open>
  A rank-2 float tensor with its number of columns, which a tensor without rows still
  has. Every row has \<open>ncols\<close> elements.
\<close>

datatype matrix = Matrix (ncols: nat) (mrows: "fl list list")

text \<open>
  \<^verbatim>\<open>tf.ragged.boolean_mask(points, tf.math.is_finite(points))\<close>. The mask has the rank of
  the data, so the two outer dimensions are kept and each innermost row (one landmark's
  \<open>[x, y]\<close>) keeps its finite elements only: a missing landmark becomes an empty row.
\<close>

definition masked_row :: "fl \<times> fl \<Rightarrow> fl list" where
  "masked_row p = filter is_finite [fst p, snd p]"

definition boolean_mask_finite :: "points \<Rightarrow> fl list list list" where
  "boolean_mask_finite pts = map (map masked_row) pts"

definition row_width :: "'a list list \<Rightarrow> nat" where
  "row_width rows = foldr max (map length rows) 0"

text \<open>
  \<^verbatim>\<open>tf.reduce_min\<close> and \<^verbatim>\<open>tf.reduce_max\<close> over axis 1 of the ragged tensor, for one
  instance: the result row is as long as the instance's longest row, and its element
  \<open>k\<close> reduces the elements \<open>k\<close> of the rows that have one. Every column \<open>k\<close> below the
  width has such a row, so the empty case does not arise.
\<close>

definition ragged_reduce :: "(fl \<Rightarrow> fl \<Rightarrow> fl) \<Rightarrow> fl list list \<Rightarrow> fl list" where
  "ragged_reduce f rows =
     map (\<lambda>k. case map (\<lambda>r. r ! k) (filter (\<lambda>r. k < length r) rows) of
                 [] \<Rightarrow> NaN
               | v # vs \<Rightarrow> foldl f v vs)
         [0..<row_width rows]"

text \<open>
  \<^verbatim>\<open>RaggedTensor.to_tensor()\<close>: every row is padded to the longest row with the default
  value zero.
\<close>

definition to_tensor :: "fl list list \<Rightarrow> matrix" where
  "to_tensor rows =
     Matrix (row_width rows)
       (map (\<lambda>r. r @ replicate (row_width rows - length r) (Fin 0)) rows)"

definition get_bbox_centroid :: "points \<Rightarrow> matrix" where
  "get_bbox_centroid pts =
     (let masked_pts = boolean_mask_finite pts;
          pts_min = map (ragged_reduce fmin) masked_pts;
          pts_max = map (ragged_reduce fmax) masked_pts;
          centroids = map2 (map2 (\<lambda>mx mn. fmul (Fin (1 / 2)) (fadd mx mn))) pts_max pts_min
      in to_tensor centroids)"

text \<open>
  \<^verbatim>\<open>get_bbox_centroid_from_node_ind\<close>: \<^verbatim>\<open>tf.gather\<close> raises for a node index out of
  range, and \<^verbatim>\<open>tf.where\<close> broadcasts the bounding-box centroids against the gathered
  \<open>(n_instances, 2)\<close> tensor, which needs them to have two columns or one.
\<close>

definition get_bbox_centroid_from_node_ind :: "points \<Rightarrow> int \<Rightarrow> py_error + matrix" where
  "get_bbox_centroid_from_node_ind pts node_ind =
     (if \<not> list_all (\<lambda>inst. valid_ind (length inst) node_ind) pts
      then Inl InvalidArgumentError
      else
        (let centroids = map (\<lambda>inst. inst ! nat node_ind) pts;
             all_pts_centroids = get_bbox_centroid pts
         in if ncols all_pts_centroids = 2 then
              Inr (Matrix 2
                (map2 (\<lambda>c a. [if is_nan (fst c) then a ! 0 else fst c,
                               if is_nan (snd c) then a ! 1 else snd c])
                   centroids (mrows all_pts_centroids)))
            else if ncols all_pts_centroids = 1 then
              Inr (Matrix 2
                (map2 (\<lambda>c a. [if is_nan (fst c) then a ! 0 else fst c,
                               if is_nan (snd c) then a ! 0 else snd c])
                   centroids (mrows all_pts_centroids)))
            else Inl InvalidArgumentError))"

text \<open>
  A bounding box \<open>(y1, x1, y2, x2)\<close>. \<^verbatim>\<open>get_centered_bboxes\<close> reverses each centroid
  row, tiles it twice and adds \<open>[-h/2, -w/2, h/2, w/2]\<close>; the addition broadcasts only
  when the centroids have two columns.
\<close>

type_synonym bbox = "fl \<times> fl \<times> fl \<times> fl"

definition get_centered_bboxes :: "matrix \<Rightarrow> int \<Rightarrow> int \<Rightarrow> py_error + bbox list" where
  "get_centered_bboxes centroids box_width box_height =
     (if ncols centroids = 2 then
        Inr (map (\<lambda>r. (fadd (r ! 1) (Fin (- (1 / 2) * real_of_int box_height)),
                        fadd (r ! 0) (Fin (- (1 / 2) * real_of_int box_width)),
                        fadd (r ! 1) (Fin ((1 / 2) * real_of_int box_height)),
                        fadd (r ! 0) (Fin ((1 / 2) * real_of_int box_width))))
               (mrows centroids))
      else Inl InvalidArgumentError)"

definition normalize_bboxes :: "bbox list \<Rightarrow> int \<Rightarrow> int \<Rightarrow> bbox list" where
  "normalize_bboxes bboxes img_height img_width =
     map (\<lambda>(y1, x1, y2, x2).
            (fdiv y1 (Fin (real_of_int (img_height - 1))),
             fdiv x1 (Fin (real_of_int (img_width - 1))),
             fdiv y2 (Fin (real_of_int (img_height - 1))),
             fdiv x2 (Fin (real_of_int (img_width - 1)))))
         bboxes"

definition get_bbox_offsets :: "bbox list \<Rightarrow> (fl \<times> fl) list" where
  "get_bbox_offsets bboxes = map (\<lambda>(y1, x1, y2, x2). (x1, y1)) bboxes"

text \<open>
  \<^verbatim>\<open>pts_to_bbox\<close>: the result has shape \<open>(n_boxes, n_instances, n_nodes, 2)\<close>.
\<close>

definition pts_to_bbox :: "points \<Rightarrow> bbox list \<Rightarrow> points list" where
  "pts_to_bbox pts bboxes =
     map (\<lambda>off. map (map (\<lambda>p. (fsub (fst p) (fst off), fsub (snd p) (snd off)))) pts)
         (get_bbox_offsets bboxes)"

section \<open>Cropping and instance isolation\<close>

text \<open>
  An image is a rank-3 tensor \<open>(height, width, channels)\<close>. The bilinear sampler
  \<^verbatim>\<open>tf.image.crop_and_resize\<close> is a parameter \<open>crop_and_resize\<close> of \<^verbatim>\<open>crop_bboxes\<close>,
  taking the image, the normalized boxes and the crop size \<open>(box_height, box_width)\<close>.
\<close>

type_synonym image = "fl list list list"

definition crop_bboxes ::
  "(image \<Rightarrow> bbox list \<Rightarrow> int \<Rightarrow> int \<Rightarrow> image list) \<Rightarrow>
   image \<Rightarrow> bbox list \<Rightarrow> int \<Rightarrow> int \<Rightarrow> bool \<Rightarrow> image list" where
  "crop_bboxes crop_and_resize img bboxes box_width box_height normalize_image =
     (let img_height = int (length img);
          img_width = (case img of [] \<Rightarrow> 0 | r # _ \<Rightarrow> int (length r));
          normalized_bboxes = normalize_bboxes bboxes img_height img_width;
          image_boxes = crop_and_resize img normalized_bboxes box_height box_width
      in if normalize_image
         then map (map (map (map (\<lambda>v. fdiv v (Fin 255))))) image_boxes
         else image_boxes)"

text \<open>
  The arguments of a Python call, as \<^verbatim>\<open>instance_crop\<close> passes them. A call with fewer
  positional arguments than the callee requires, or with more than it accepts, raises
  \<open>TypeError\<close>; so does arithmetic of a float with a tuple.
  \<^verbatim>\<open>get_centered_bboxes(centroids, box_width, box_height)\<close> requires three arguments,
  \<^verbatim>\<open>crop_bboxes(image, bboxes, box_width, box_height, normalize_image=True)\<close> four.
\<close>

datatype pyarg =
    ArgImage image
  | ArgMatrix matrix
  | ArgBoxes "bbox list"
  | ArgInt int
  | ArgTuple int int
  | ArgBool bool

definition call_get_centered_bboxes :: "pyarg list \<Rightarrow> py_error + bbox list" where
  "call_get_centered_bboxes args =
     (if length args \<noteq> 3 then Inl TypeError
      else
        (case (args ! 0, args ! 1, args ! 2) of
           (ArgMatrix c, ArgInt w, ArgInt h) \<Rightarrow> get_centered_bboxes c w h
         | _ \<Rightarrow> Inl TypeError))"

definition call_crop_bboxes ::
  "(image \<Rightarrow> bbox list \<Rightarrow> int \<Rightarrow> int \<Rightarrow> image list) \<Rightarrow> pyarg list \<Rightarrow> py_error + image list"
  where
  "call_crop_bboxes crop_and_resize args =
     (if length args < 4 \<or> 5 < length args then Inl TypeError
      else
        (case (args ! 0, args ! 1, args ! 2, args ! 3) of
           (ArgImage im, ArgBoxes bs, ArgInt w, ArgInt h) \<Rightarrow>
             (if length args = 5 then
                (case args ! 4 of
                   ArgBool b \<Rightarrow> Inr (crop_bboxes crop_and_resize im bs w h b)
                 | _ \<Rightarrow> Inl TypeError)
              else Inr (crop_bboxes crop_and_resize im bs w h True))
         | _ \<Rightarrow> Inl TypeError))"

text \<open>
  \<^verbatim>\<open>tf.gather_nd(instance_points, [[0, 0], [1, 1], ...])\<close>: the diagonal of the cross
  product.
\<close>

definition gather_diag :: "points list \<Rightarrow> points" where
  "gather_diag instance_points =
     map (\<lambda>i. instance_points ! i ! i) [0..<length instance_points]"

text \<open>
  \<^verbatim>\<open>instance_crop\<close>, as the source is indented: when \<^verbatim>\<open>use_ctr_node\<close> is true only
  \<^verbatim>\<open>centroids\<close> is assigned, and the read of the local \<^verbatim>\<open>instance_points\<close> that
  follows the conditional raises \<open>UnboundLocalError\<close>; otherwise the boxes, the points
  and the crops are computed in the \<^verbatim>\<open>else\<close> branch, by the calls
  \<^verbatim>\<open>get_centered_bboxes(centroids, (box_height, box_width))\<close> and
  \<^verbatim>\<open>crop_bboxes(image, instance_bboxes, (box_height, box_width))\<close>.
  \<^verbatim>\<open>normalize_image\<close> is not passed on.
\<close>

definition instance_crop ::
  "(image \<Rightarrow> bbox list \<Rightarrow> int \<Rightarrow> int \<Rightarrow> image list) \<Rightarrow>
   image \<Rightarrow> points \<Rightarrow> int \<Rightarrow> int \<Rightarrow> bool \<Rightarrow> int \<Rightarrow> bool \<Rightarrow>
   py_error + (image list \<times> points list \<times> points)" where
  "instance_crop crop_and_resize img pts box_height box_width use_ctr_node ctr_node_ind
       normalize_image =
     (if use_ctr_node then
        (case get_bbox_centroid_from_node_ind pts ctr_node_ind of
           Inl e \<Rightarrow> Inl e
         | Inr centroids \<Rightarrow> Inl UnboundLocalError)
      else
        (case call_get_centered_bboxes
                [ArgMatrix (get_bbox_centroid pts), ArgTuple box_height box_width] of
           Inl e \<Rightarrow> Inl e
         | Inr instance_bboxes \<Rightarrow>
             (let instance_points = pts_to_bbox pts instance_bboxes
              in case call_crop_bboxes crop_and_resize
                        [ArgImage img, ArgBoxes instance_bboxes,
                         ArgTuple box_height box_width] of
                   Inl e \<Rightarrow> Inl e
                 | Inr instance_images \<Rightarrow>
                     Inr (instance_images, instance_points, gather_diag instance_points))))"

section \<open>Points datasets\<close>

text \<open>
  An array with its shape; \<open>ndim\<close> is the length of the shape. The argument of
  \<^verbatim>\<open>make_points_dataset\<close> is a Python list of arrays, a single NumPy array or tensor,
  or a value of another type. A dataset is the sequence of its elements.
\<close>

datatype ndarray = NDArray (shape: "nat list") (elems: "fl list")

definition ndim :: "ndarray \<Rightarrow> nat" where
  "ndim a = length (shape a)"

text \<open>\<^verbatim>\<open>tf.expand_dims(p, 0)\<close>.\<close>

definition expand_dims0 :: "ndarray \<Rightarrow> ndarray" where
  "expand_dims0 a = NDArray (1 # shape a) (elems a)"

datatype points_input = PyList "ndarray list" | ArrayLike ndarray | OtherType

datatype dataset = Dataset "ndarray list"

text \<open>
  \<^verbatim>\<open>make_points_dataset\<close>. In the branch for a single array or tensor the source calls
  \<^verbatim>\<open>tf.tensor_slices\<close>; the \<^verbatim>\<open>tensorflow\<close> module has no attribute of that name
  (the constructor is \<^verbatim>\<open>tf.data.Dataset.from_tensor_slices\<close>), so the attribute lookup
  raises \<open>AttributeError\<close>. \<^verbatim>\<open>points[0]\<close> raises \<open>IndexError\<close> on an empty list.
\<close>

definition make_points_dataset :: "points_input \<Rightarrow> py_error + dataset" where
  "make_points_dataset pts =
     (case pts of
        PyList ps \<Rightarrow>
          (case ps of
             [] \<Rightarrow> Inl IndexError
           | p0 # _ \<Rightarrow>
               if ndim p0 = 2 then Inr (Dataset (map expand_dims0 ps))
               else if ndim p0 = 3 then Inr (Dataset ps)
               else Inl ValueError)
      | ArrayLike a \<Rightarrow> Inl AttributeError
      | OtherType \<Rightarrow> Inl ValueError)"

section \<open>Real-valued bounding boxes\<close>




section \<open>Properties of the sampling grid\<close>

lemma grid_vector_pos:
  "0 < output_scale \<Longrightarrow>
   grid_vector limit output_scale =
     Inr (map (\<lambda>i. real i * (1 / output_scale)) [0..<nat \<lceil>real limit * output_scale\<rceil>])"
  by (simp add: grid_vector_def tf_range_def)

section \<open>Properties of the confidence maps\<close>

lemma confmap_value_finite:
  "sigma \<noteq> 0 \<Longrightarrow>
   confmap_value sigma gx gy (Fin x, Fin y) =
     Fin (exp (- ((gx - x)\<^sup>2 + (gy - y)\<^sup>2) / (2 * sigma\<^sup>2)))"
  by (simp add: confmap_value_def fsub_def power2_eq_square)

lemma make_confmaps_nth:
  assumes "0 < output_scale"
    and "i < length pts" and "k < length (pts ! i)"
    and "b < nat \<lceil>real image_height * output_scale\<rceil>"
    and "a < nat \<lceil>real image_width * output_scale\<rceil>"
  shows "\<exists>cm. make_confmaps pts image_height image_width output_scale sigma = Inr cm
           \<and> cm ! i ! b ! a ! k =
               nan_to_zero (confmap_value sigma (real a * (1 / output_scale))
                              (real b * (1 / output_scale)) (pts ! i ! k))"
  using assms by (simp add: make_confmaps_def grid_vector_pos)

text \<open>
  Claim C9. For a positive output scale and a nonzero \<open>sigma\<close>, the element of the
  \<^verbatim>\<open>make_confmaps\<close> output for instance \<open>i\<close>, landmark \<open>k\<close> with finite coordinates
  \<open>(x, y)\<close>, at the grid point \<open>(gx, gy) = (a / output_scale, b / output_scale)\<close>, is
  \<open>exp (- ((gx - x)\<^sup>2 + (gy - y)\<^sup>2) / (2 sigma\<^sup>2))\<close>; where the grid point is the
  landmark's coordinate the element is \<open>1\<close>.
\<close>

theorem make_confmaps_gaussian:
  assumes "0 < output_scale" and "sigma \<noteq> 0"
    and "i < length pts" and "k < length (pts ! i)"
    and "pts ! i ! k = (Fin x, Fin y)"
    and "b < nat \<lceil>real image_height * output_scale\<rceil>"
    and "a < nat \<lceil>real image_width * output_scale\<rceil>"
  shows "\<exists>cm. make_confmaps pts image_height image_width output_scale sigma = Inr cm
           \<and> cm ! i ! b ! a ! k =
               Fin (exp (- ((real a * (1 / output_scale) - x)\<^sup>2
                            + (real b * (1 / output_scale) - y)\<^sup>2) / (2 * sigma\<^sup>2)))
           \<and> (real a * (1 / output_scale) = x \<and> real b * (1 / output_scale) = y
                \<longrightarrow> cm ! i ! b ! a ! k = Fin 1)"
proof -
  obtain cm where cm: "make_confmaps pts image_height image_width output_scale sigma = Inr cm"
    and v: "cm ! i ! b ! a ! k =
               nan_to_zero (confmap_value sigma (real a * (1 / output_scale))
                              (real b * (1 / output_scale)) (pts ! i ! k))"
    using make_confmaps_nth [OF assms(1) assms(3) assms(4) assms(6) assms(7)] by blast
  have "cm ! i ! b ! a ! k =
               Fin (exp (- ((real a * (1 / output_scale) - x)\<^sup>2
                            + (real b * (1 / output_scale) - y)\<^sup>2) / (2 * sigma\<^sup>2)))"
    using v assms(2) assms(5) by (simp add: confmap_value_finite nan_to_zero_def)
  then show ?thesis using cm by simp
qed

text \<open>
  The scenario of the specification: one landmark at \<open>(5, 5)\<close> and a missing one, a
  10 by 10 image, \<open>sigma = 1\<close>: the peak at grid point \<open>(5, 5)\<close> is \<open>1\<close>.
\<close>

theorem make_confmaps_gaussian_witness:
  "(0::real) < 1 \<and> (1::real) \<noteq> 0 \<and> (0::nat) < length [[(Fin 5, Fin 5), (NaN, NaN)]]
   \<and> (0::nat) < length ([[(Fin 5, Fin 5), (NaN, NaN)]] ! 0)
   \<and> [[(Fin 5, Fin 5), (NaN, NaN)]] ! 0 ! 0 = (Fin 5, Fin 5)
   \<and> (5::nat) < nat \<lceil>real 10 * 1\<rceil>
   \<and> (\<exists>cm. make_confmaps [[(Fin 5, Fin 5), (NaN, NaN)]] 10 10 1 1 = Inr cm
          \<and> cm ! 0 ! 5 ! 5 ! 0 = Fin 1)"
  using make_confmaps_gaussian [of 1 1 0 "[[(Fin 5, Fin 5), (NaN, NaN)]]" 0 5 5 5 10 5 10]
  by auto

text \<open>
  Claim C6. When landmark \<open>k\<close> of instance \<open>i\<close> is NaN in both coordinates and every
  other landmark is finite, \<^verbatim>\<open>make_confmaps\<close> returns (it does not raise), the slice
  of instance \<open>i\<close>, channel \<open>k\<close> is zero at every grid point \<open>(b, a)\<close>, and the
  element of every other instance and channel \<open>(i', k')\<close> is the Gaussian value of that
  landmark's own coordinates.
\<close>

theorem make_confmaps_nan_landmark:
  assumes "0 < output_scale" and "sigma \<noteq> 0"
    and "i < length pts" and "k < length (pts ! i)"
    and "pts ! i ! k = (NaN, NaN)"
    and "\<forall>i' k'. i' < length pts \<and> k' < length (pts ! i') \<and> (i', k') \<noteq> (i, k)
            \<longrightarrow> is_finite (fst (pts ! i' ! k')) \<and> is_finite (snd (pts ! i' ! k'))"
    and "b < nat \<lceil>real image_height * output_scale\<rceil>"
    and "a < nat \<lceil>real image_width * output_scale\<rceil>"
  shows "\<exists>cm. make_confmaps pts image_height image_width output_scale sigma = Inr cm
           \<and> cm ! i ! b ! a ! k = Fin 0
           \<and> (i' < length pts \<and> k' < length (pts ! i') \<and> (i', k') \<noteq> (i, k)
                \<longrightarrow> (\<exists>x y. pts ! i' ! k' = (Fin x, Fin y)
                       \<and> cm ! i' ! b ! a ! k' =
                           Fin (exp (- ((real a * (1 / output_scale) - x)\<^sup>2
                              + (real b * (1 / output_scale) - y)\<^sup>2) / (2 * sigma\<^sup>2)))))"
proof -
  obtain cm where cm: "make_confmaps pts image_height image_width output_scale sigma = Inr cm"
    using assms(1) by (simp add: make_confmaps_def grid_vector_pos)
  have zero: "cm ! i ! b ! a ! k = Fin 0"
    using make_confmaps_nth [OF assms(1) assms(3) assms(4) assms(7) assms(8), of sigma] cm assms(5)
    by (simp add: confmap_value_def fsub_def nan_to_zero_def)
  have other: "\<exists>x y. pts ! i' ! k' = (Fin x, Fin y)
                 \<and> cm ! i' ! b ! a ! k' =
                     Fin (exp (- ((real a * (1 / output_scale) - x)\<^sup>2
                        + (real b * (1 / output_scale) - y)\<^sup>2) / (2 * sigma\<^sup>2)))"
    if that: "i' < length pts" "k' < length (pts ! i')" "(i', k') \<noteq> (i, k)"
  proof -
    have f: "is_finite (fst (pts ! i' ! k')) \<and> is_finite (snd (pts ! i' ! k'))"
      using assms(6) that by blast
    obtain x y where p: "pts ! i' ! k' = (Fin x, Fin y)"
      using f by (cases "pts ! i' ! k'"; cases "fst (pts ! i' ! k')"; cases "snd (pts ! i' ! k')") auto
    show ?thesis
      using make_confmaps_nth [OF assms(1) that(1) that(2) assms(7) assms(8), of sigma] cm p assms(2)
      by (simp add: confmap_value_finite nan_to_zero_def)
  qed
  show ?thesis using cm zero other by blast
qed

text \<open>
  The same scenario: channel 1 (the missing landmark) is zero at grid point \<open>(5, 5)\<close>
  and channel 0 keeps its peak.
\<close>

theorem make_confmaps_nan_landmark_witness:
  "(\<exists>cm. make_confmaps [[(Fin 5, Fin 5), (NaN, NaN)]] 10 10 1 1 = Inr cm
          \<and> cm ! 0 ! 5 ! 5 ! 1 = Fin 0 \<and> cm ! 0 ! 5 ! 5 ! 0 = Fin 1)"
proof -
  have h: "\<forall>i' k'. i' < length [[(Fin 5, Fin 5), (NaN, NaN)]]
            \<and> k' < length ([[(Fin 5, Fin 5), (NaN, NaN)]] ! i') \<and> (i', k') \<noteq> (0, 1)
            \<longrightarrow> is_finite (fst ([[(Fin 5, Fin 5), (NaN, NaN)]] ! i' ! k'))
              \<and> is_finite (snd ([[(Fin 5, Fin 5), (NaN, NaN)]] ! i' ! k'))"
    by (auto simp: less_Suc_eq numeral_2_eq_2)
  show ?thesis
    using make_confmaps_nan_landmark
      [of 1 1 0 "[[(Fin 5, Fin 5), (NaN, NaN)]]" 1 5 10 5 10 0 0, OF _ _ _ _ _ h]
    by auto
qed

section \<open>Properties of the part affinity fields\<close>

subsection \<open>Auxiliary facts\<close>

lemma fadd_assoc: "fadd (fadd a b) c = fadd a (fadd b c)"
  by (cases a; cases b; cases c) simp_all

lemma fadd_zero_left: "fadd (Fin 0) a = a"
  by (cases a) simp_all

lemma reduce_sum_append:
  "reduce_sum (xs @ ys) = fadd (reduce_sum xs) (reduce_sum ys)"
  by (induction xs) (simp_all add: reduce_sum_def fadd_zero_left fadd_assoc)

lemma map2_same: "map2 f (map g xs) (map h xs) = map (\<lambda>x. f (g x) (h x)) xs"
  by (induction xs) simp_all

lemma map2_concat_pairs:
  "map2 f (concat (map (\<lambda>e. [a1 e, a2 e]) es)) (concat (map (\<lambda>e. [b1 e, b2 e]) es))
     = concat (map (\<lambda>e. [f (a1 e) (b1 e), f (a2 e) (b2 e)]) es)"
  by (induction es) simp_all

lemma gather_ok_append: "gather_ok (p1 @ p2) edges = (gather_ok p1 edges \<and> gather_ok p2 edges)"
  by (simp add: gather_ok_def)






lemma unit_vector_not_inf:
  "fst (unit_vector d) \<noteq> PInf \<and> fst (unit_vector d) \<noteq> NInf
   \<and> snd (unit_vector d) \<noteq> PInf \<and> snd (unit_vector d) \<noteq> NInf"
  by (cases d; cases "fst d"; cases "snd d")
     (auto simp: unit_vector_def edge_length_def not_less sum_squares_eq_zero_iff)

lemma nan_to_zero_cast_finite:
  "u \<noteq> PInf \<Longrightarrow> u \<noteq> NInf \<Longrightarrow> is_finite (nan_to_zero (fmul (cast_float m) u))"
  by (cases u) (simp_all add: nan_to_zero_def cast_float_def)

lemma paf_value_is_finite:
  "is_finite (fst (paf_value thr src dst gx gy)) \<and> is_finite (snd (paf_value thr src dst gx gy))"
  using unit_vector_not_inf [of "delta_points src dst"]
  by (simp add: paf_value_def Let_def nan_to_zero_cast_finite)

lemma fadd_is_finite: "is_finite a \<Longrightarrow> is_finite b \<Longrightarrow> is_finite (fadd a b)"
  by (cases a; cases b) simp_all

lemma reduce_sum_is_finite: "list_all is_finite vs \<Longrightarrow> is_finite (reduce_sum vs)"
  by (induction vs) (simp_all add: reduce_sum_def fadd_is_finite)

lemma paf_value_degenerate: "paf_value thr p p gx gy = (Fin 0, Fin 0)"
  by (cases p; cases "fst p"; cases "snd p")
     (simp_all add: paf_value_def Let_def unit_vector_def edge_length_def delta_points_def
        fsub_def nan_to_zero_def cast_float_def)



subsection \<open>Output dimensions\<close>




subsection \<open>The field of a single instance\<close>



subsection \<open>Additivity over instances\<close>

text \<open>
  Claim C5. When \<^verbatim>\<open>make_pafs\<close> returns for the points tensors \<open>p1\<close> and \<open>p2\<close>, with
  the same edges, dimensions, scale and threshold, it returns their elementwise sum for
  the tensor stacking \<open>p1\<close> and \<open>p2\<close> along the instance axis.
\<close>

theorem make_pafs_additive:
  assumes "make_pafs p1 edges image_height image_width output_scale distance_threshold = Inr A"
    and "make_pafs p2 edges image_height image_width output_scale distance_threshold = Inr B"
  shows "make_pafs (p1 @ p2) edges image_height image_width output_scale distance_threshold
           = Inr (tensor_add A B)"
proof -
  from assms(1) have g1: "gather_ok p1 edges"
    by (auto simp: make_pafs_def split: if_splits)
  from assms(2) have g2: "gather_ok p2 edges"
    by (auto simp: make_pafs_def split: if_splits)
  from assms(1) g1 obtain yv xv where
    yv: "grid_vector image_height output_scale = Inr yv" and
    xv: "grid_vector image_width output_scale = Inr xv"
    by (auto simp: make_pafs_def split: sum.splits)
  have A: "A = map (\<lambda>gx. map (\<lambda>gy. concat (map (\<lambda>e.
                 [reduce_sum (map (\<lambda>inst. fst (paf_value distance_threshold
                     (inst ! nat (fst e)) (inst ! nat (snd e)) gx gy)) p1),
                  reduce_sum (map (\<lambda>inst. snd (paf_value distance_threshold
                     (inst ! nat (fst e)) (inst ! nat (snd e)) gx gy)) p1)]) edges)) yv) xv"
    using assms(1) g1 by (simp add: make_pafs_def yv xv)
  have B: "B = map (\<lambda>gx. map (\<lambda>gy. concat (map (\<lambda>e.
                 [reduce_sum (map (\<lambda>inst. fst (paf_value distance_threshold
                     (inst ! nat (fst e)) (inst ! nat (snd e)) gx gy)) p2),
                  reduce_sum (map (\<lambda>inst. snd (paf_value distance_threshold
                     (inst ! nat (fst e)) (inst ! nat (snd e)) gx gy)) p2)]) edges)) yv) xv"
    using assms(2) g2 by (simp add: make_pafs_def yv xv)
  show ?thesis
    using g1 g2
    unfolding make_pafs_def tensor_add_def yv xv A B
    by (simp add: gather_ok_append map2_same map2_concat_pairs reduce_sum_append)
qed

text \<open>Two copies of one instance: the vector at the origin is \<open>(2, 0)\<close>, not \<open>(1, 0)\<close>.\<close>

theorem make_pafs_additive_witness:
  "make_pafs [[(Fin 0, Fin 0), (Fin 1, Fin 0)]] [(0, 1)] 1 1 1 3 = Inr [[[Fin 1, Fin 0]]]
   \<and> make_pafs ([[(Fin 0, Fin 0), (Fin 1, Fin 0)]] @ [[(Fin 0, Fin 0), (Fin 1, Fin 0)]])
         [(0, 1)] 1 1 1 3 = Inr [[[Fin 2, Fin 0]]]"
proof -
  have h: "make_pafs [[(Fin 0, Fin 0), (Fin 1, Fin 0)]] [(0, 1)] 1 1 1 3
             = Inr [[[Fin 1, Fin 0]]]"
    by (simp add: make_pafs_def gather_ok_def valid_ind_def grid_vector_def tf_range_def
      reduce_sum_def paf_value_def paf_mask_def Let_def unit_vector_def
      edge_length_def delta_points_def dot2_def perpendicular_unit_vector_def fsub_def fge_def
      nan_to_zero_def cast_float_def)
  show ?thesis
    using h make_pafs_additive [OF h h] by (simp add: tensor_add_def)
qed

subsection \<open>Degenerate edges\<close>

text \<open>
  Claim C7. Every element of a \<^verbatim>\<open>make_pafs\<close> output is finite, neither NaN nor
  infinite, and an instance whose edge \<open>k\<close> has coinciding source and destination
  contributes the zero vector to that edge at every grid point \<open>(gx, gy)\<close>.
\<close>

theorem make_pafs_degenerate_edge:
  assumes "make_pafs pts edges image_height image_width output_scale distance_threshold = Inr pf"
    and "i < length pts" and "k < length edges"
    and "pts ! i ! nat (fst (edges ! k)) = pts ! i ! nat (snd (edges ! k))"
  shows "(\<forall>col \<in> set pf. \<forall>cell \<in> set col. \<forall>v \<in> set cell. is_finite v)
         \<and> paf_value distance_threshold (pts ! i ! nat (fst (edges ! k)))
              (pts ! i ! nat (snd (edges ! k))) gx gy = (Fin 0, Fin 0)"
proof -
  from assms(1) have g: "gather_ok pts edges"
    by (auto simp: make_pafs_def split: if_splits)
  from assms(1) g obtain yv xv where
    yv: "grid_vector image_height output_scale = Inr yv" and
    xv: "grid_vector image_width output_scale = Inr xv"
    by (auto simp: make_pafs_def split: sum.splits)
  have pf: "pf = map (\<lambda>gx. map (\<lambda>gy. concat (map (\<lambda>e.
                 [reduce_sum (map (\<lambda>inst. fst (paf_value distance_threshold
                     (inst ! nat (fst e)) (inst ! nat (snd e)) gx gy)) pts),
                  reduce_sum (map (\<lambda>inst. snd (paf_value distance_threshold
                     (inst ! nat (fst e)) (inst ! nat (snd e)) gx gy)) pts)]) edges)) yv) xv"
    using assms(1) g by (simp add: make_pafs_def yv xv)
  have fin: "\<forall>col \<in> set pf. \<forall>cell \<in> set col. \<forall>v \<in> set cell. is_finite v"
    unfolding pf
    by (auto intro!: reduce_sum_is_finite simp: list_all_iff paf_value_is_finite)
  show ?thesis
    using fin assms(4) by (simp add: paf_value_degenerate)
qed

text \<open>An instance whose only edge joins two landmarks at \<open>(1, 1)\<close>.\<close>

theorem make_pafs_degenerate_edge_witness:
  "make_pafs [[(Fin 1, Fin 1), (Fin 1, Fin 1)]] [(0, 1)] 1 1 1 3 = Inr [[[Fin 0, Fin 0]]]
   \<and> is_finite (Fin 0)
   \<and> paf_value 3 (Fin 1, Fin 1) (Fin 1, Fin 1) 0 0 = (Fin 0, Fin 0)"
proof -
  have h: "make_pafs [[(Fin 1, Fin 1), (Fin 1, Fin 1)]] [(0, 1)] 1 1 1 3 = Inr [[[Fin 0, Fin 0]]]"
    by (simp add: make_pafs_def gather_ok_def valid_ind_def grid_vector_def tf_range_def
        reduce_sum_def paf_value_def paf_mask_def Let_def unit_vector_def edge_length_def
        delta_points_def fsub_def nan_to_zero_def cast_float_def)
  show ?thesis
    using h make_pafs_degenerate_edge [OF h, of 0 0 0 0] by simp
qed

section \<open>Properties of the bounding-box centroid\<close>















subsection \<open>Centroids of finite points\<close>














subsection \<open>Round trip through a centered box\<close>



section \<open>Properties of instance isolation\<close>

text \<open>
  Claim C1. \<^verbatim>\<open>instance_crop\<close> returns no tuple for any input. Without
  \<^verbatim>\<open>use_ctr_node\<close> the call of \<^verbatim>\<open>get_centered_bboxes\<close> with two arguments raises
  \<open>TypeError\<close>; with \<^verbatim>\<open>use_ctr_node\<close> the function raises as well
  (\<open>UnboundLocalError\<close> once the centroids are computed).
\<close>

theorem instance_crop_raises:
  "instance_crop crop_and_resize img pts box_height box_width False ctr_node_ind normalize_image
     = Inl TypeError
   \<and> (\<exists>e. instance_crop crop_and_resize img pts box_height box_width True ctr_node_ind
              normalize_image = Inl e)"
  by (simp add: instance_crop_def call_get_centered_bboxes_def split: sum.splits)

section \<open>Properties of the points dataset\<close>

text \<open>
  Claim C10. For a single array or tensor \<^verbatim>\<open>make_points_dataset\<close> raises
  \<open>AttributeError\<close> and returns no dataset; whenever it returns a dataset, the input was
  a list.
\<close>

theorem make_points_dataset_array_fails:
  "make_points_dataset (ArrayLike a) = Inl AttributeError
   \<and> (make_points_dataset pts = Inr ds \<longrightarrow> (\<exists>ps. pts = PyList ps))"
  by (cases pts) (simp_all add: make_points_dataset_def)

text \<open>A rank-4 array fails; a list with one rank-3 array gives a dataset.\<close>

theorem make_points_dataset_array_fails_witness:
  "make_points_dataset (ArrayLike (NDArray [1, 1, 1, 2] [Fin 3, Fin 4])) = Inl AttributeError
   \<and> make_points_dataset (PyList [NDArray [1, 1, 2] [Fin 3, Fin 4]])
       = Inr (Dataset [NDArray [1, 1, 2] [Fin 3, Fin 4]])
   \<and> (\<exists>ps. PyList [NDArray [1, 1, 2] [Fin 3, Fin 4]] = PyList ps)"
  using make_points_dataset_array_fails
    [of "NDArray [1, 1, 1, 2] [Fin 3, Fin 4]" "PyList [NDArray [1, 1, 2] [Fin 3, Fin 4]]"
        "Dataset [NDArray [1, 1, 2] [Fin 3, Fin 4]]"]
  by (simp add: make_points_dataset_def ndim_def)

end
